theory Spec2Isabelle
  imports Main "HOL-Library.Word" "HOL-Library.AList"
begin

section \<open>Values\<close>

text \<open>
  The values the control client handles are what \<^verbatim>\<open>JSON.parse\<close> builds, plus Node's
  \<^verbatim>\<open>Buffer\<close>, which the reviver of \<^verbatim>\<open>deserialise\<close> creates. An object is an
  association list in the enumeration order of its keys; a parsed object has each key once,
  and a lookup reads the first binding of a key. Numbers are only ever compared and copied
  by the client, so \<^typ>\<open>int\<close> stands for them. JavaScript's \<^verbatim>\<open>undefined\<close>
  is not a JSON value: a possibly undefined value is an \<open>option\<close>.
\<close>

datatype json =
    JNull
  | JBool bool
  | JNum int
  | JStr string
  | JArr "json list"
  | JObj "(string \<times> json) list"
  | JBuffer "8 word list"

text \<open>What a call can throw.\<close>

datatype exn =
    TypeError
  | SyntaxError
  | AssertionError string
  | PATH_NOT_FOUND
  | TEST_FAILED

text \<open>
  A frame on the wire is text. \<^verbatim>\<open>JSON.parse\<close> either throws a SyntaxError or
  returns the value the text denotes, so a frame is modelled by that outcome: \<open>Text v\<close> is a
  frame that is JSON text for \<open>v\<close>, \<open>Junk raw\<close> is a frame that is not JSON.
\<close>

datatype frame = Text json | Junk string

definition JSON_parse :: "frame \<Rightarrow> json option" where
  "JSON_parse f = (case f of Text v \<Rightarrow> Some v | Junk raw \<Rightarrow> None)"

text \<open>
  \<^verbatim>\<open>JSON.stringify\<close> writes a Buffer through its \<^verbatim>\<open>toJSON\<close> method, as the object
  \<^verbatim>\<open>{"type":"Buffer","data":[...]}\<close>; every other value of \<^typ>\<open>json\<close> is written as it is.
\<close>

primrec toJSON :: "json \<Rightarrow> json" where
  "toJSON JNull = JNull"
| "toJSON (JBool b) = JBool b"
| "toJSON (JNum n) = JNum n"
| "toJSON (JStr s) = JStr s"
| "toJSON (JArr xs) = JArr (map toJSON xs)"
| "toJSON (JObj kvs) = JObj (map (map_prod id toJSON) kvs)"
| "toJSON (JBuffer bs) =
     JObj [(''type'', JStr ''Buffer''), (''data'', JArr (map (\<lambda>b. JNum (uint b)) bs))]"

definition JSON_stringify :: "json \<Rightarrow> frame" where
  "JSON_stringify v = Text (toJSON v)"

text \<open>
  The packages the client calls but does not contain: Node's \<^verbatim>\<open>Buffer\<close> constructor,
  fast-json-patch (\<^verbatim>\<open>jsonPatch.applyPatch\<close>, \<^verbatim>\<open>jsonPatch.compare\<close>) and
  \<^verbatim>\<open>randomPhrase\<close>. They are parameters of the model.

  \<^verbatim>\<open>applyPatch\<close> is called for its effect on the object it is given (line 339 drops what it
  returns, line 341 emits the object that was passed in): \<open>applyPatch rt d p = (d', x)\<close> says
  that the call on an object holding \<open>d\<close> leaves that object holding \<open>d'\<close>, and throws \<open>e\<close>
  when \<open>x = Some e\<close>. \<^verbatim>\<open>randomPhrase\<close> is not a function of its arguments; its \<open>n\<close>-th call
  returns \<open>randomPhrase rt n\<close>.
\<close>

record runtime =
  Buffer_from :: "json list \<Rightarrow> 8 word list"
  applyPatch :: "json \<Rightarrow> json option \<Rightarrow> json \<times> exn option"
  compare :: "json \<Rightarrow> json \<Rightarrow> json"
  randomPhrase :: "nat \<Rightarrow> string"

section \<open>The message protocol messages, verbs, and errors\<close>

datatype MESSAGE = CONFIGURATION | ERROR

datatype VERB = READ | NOTIFY | PATCH

datatype ERROR = UNSUPPORTED_MESSAGE | UNSUPPORTED_VERB | JSON_PARSE_ERROR

datatype EVENT = RECONFIGURE

text \<open>The enums are string enums; these are their values.\<close>

fun MESSAGE_str :: "MESSAGE \<Rightarrow> string" where
  "MESSAGE_str CONFIGURATION = ''CONFIGURATION''"
| "MESSAGE_str ERROR = ''ERROR''"

fun VERB_str :: "VERB \<Rightarrow> string" where
  "VERB_str READ = ''READ''"
| "VERB_str NOTIFY = ''NOTIFY''"
| "VERB_str PATCH = ''PATCH''"

fun ERROR_str :: "ERROR \<Rightarrow> string" where
  "ERROR_str UNSUPPORTED_MESSAGE = ''UNSUPPORTED_MESSAGE''"
| "ERROR_str UNSUPPORTED_VERB = ''UNSUPPORTED_VERB''"
| "ERROR_str JSON_PARSE_ERROR = ''JSON_PARSE_ERROR''"

section \<open>Private convenience functions\<close>

definition serialise :: "json \<Rightarrow> frame" where
  "serialise = JSON_stringify"

text \<open>
  The reviver of \<^verbatim>\<open>deserialise\<close>: a non-null object with a \<^verbatim>\<open>type\<close> property equal to
  \<^verbatim>\<open>'Buffer'\<close> and a \<^verbatim>\<open>data\<close> property that is an array becomes
  \<^verbatim>\<open>new Buffer(v.data)\<close>; every other value is returned as it is. An array and a Buffer
  have no \<^verbatim>\<open>type\<close> property.
\<close>

fun reviver :: "runtime \<Rightarrow> json \<Rightarrow> json" where
  "reviver rt (JObj kvs) =
     (if map_of kvs ''type'' = Some (JStr ''Buffer'')
      then (case map_of kvs ''data'' of
              Some (JArr xs) \<Rightarrow> JBuffer (Buffer_from rt xs)
            | _ \<Rightarrow> JObj kvs)
      else JObj kvs)"
| "reviver rt v = v"

text \<open>
  \<^verbatim>\<open>JSON.parse(text, reviver)\<close> walks the parsed value bottom-up: the elements of an array and
  the properties of an object are revived first and stored back, then the reviver is called
  on the value itself.
\<close>

primrec revive :: "runtime \<Rightarrow> json \<Rightarrow> json" where
  "revive rt JNull = reviver rt JNull"
| "revive rt (JBool b) = reviver rt (JBool b)"
| "revive rt (JNum n) = reviver rt (JNum n)"
| "revive rt (JStr s) = reviver rt (JStr s)"
| "revive rt (JArr xs) = reviver rt (JArr (map (revive rt) xs))"
| "revive rt (JObj kvs) = reviver rt (JObj (map (map_prod id (revive rt)) kvs))"
| "revive rt (JBuffer bs) = reviver rt (JBuffer bs)"

definition deserialise :: "runtime \<Rightarrow> frame \<Rightarrow> json option" where
  "deserialise rt msg = map_option (revive rt) (JSON_parse msg)"

text \<open>
  \<^verbatim>\<open>buildMsg\<close>: the default \<^verbatim>\<open>id = randomPhrase()\<close> is evaluated when the argument is
  undefined, and only then. The second component counts the calls of \<^verbatim>\<open>randomPhrase\<close>.
\<close>

definition buildMsg :: "runtime \<Rightarrow> VERB \<Rightarrow> MESSAGE \<Rightarrow> json \<Rightarrow> json option \<Rightarrow> nat \<Rightarrow> frame \<times> nat" where
  "buildMsg rt verb msg data ident n =
     (case ident of
        None \<Rightarrow>
          (serialise (JObj [(''verb'', JStr (VERB_str verb)), (''msg'', JStr (MESSAGE_str msg)),
                            (''data'', data), (''id'', JStr (randomPhrase rt n))]), Suc n)
      | Some i \<Rightarrow>
          (serialise (JObj [(''verb'', JStr (VERB_str verb)), (''msg'', JStr (MESSAGE_str msg)),
                            (''data'', data), (''id'', i)]), n))"

definition buildPatchConfiguration :: "runtime \<Rightarrow> json \<Rightarrow> json \<Rightarrow> json option \<Rightarrow> nat \<Rightarrow> frame \<times> nat" where
  "buildPatchConfiguration rt oldConf newConf ident n =
     buildMsg rt PATCH CONFIGURATION (compare rt oldConf newConf) ident n"

section \<open>build\<close>

definition build_CONFIGURATION_READ :: "runtime \<Rightarrow> json option \<Rightarrow> nat \<Rightarrow> frame \<times> nat" where
  "build_CONFIGURATION_READ rt ident n = buildMsg rt READ CONFIGURATION (JObj []) ident n"

definition build_CONFIGURATION_NOTIFY :: "runtime \<Rightarrow> json \<Rightarrow> json option \<Rightarrow> nat \<Rightarrow> frame \<times> nat" where
  "build_CONFIGURATION_NOTIFY rt config ident n = buildMsg rt NOTIFY CONFIGURATION config ident n"

definition build_ERROR_NOTIFY :: "runtime \<Rightarrow> ERROR \<Rightarrow> json option \<Rightarrow> nat \<Rightarrow> frame \<times> nat" where
  "build_ERROR_NOTIFY rt e ident n = buildMsg rt NOTIFY ERROR (JStr (ERROR_str e)) ident n"

section \<open>Client\<close>

text \<open>
  The state of one \<^verbatim>\<open>Client\<close> and of the parts of its surroundings that its methods touch.
  Configuration documents are JavaScript objects, and the client both copies and shares
  them, so they live in a store: \<open>heap s r\<close> is what the object \<open>r\<close> holds, \<open>nextRef s\<close> is
  the next unused object, and the field \<^verbatim>\<open>_appConfig\<close> is a reference. \<open>logger\<close> is the
  identity of the object in \<^verbatim>\<open>_logger\<close>, \<open>remotePort\<close> is \<^verbatim>\<open>_socket.remotePort\<close>,
  \<open>readyState\<close> is the state of the websocket the class extends, \<open>phrases\<close> counts the calls of
  \<^verbatim>\<open>randomPhrase\<close>. The last three fields are what an observer sees: the frames handed to
  the websocket's \<^verbatim>\<open>send\<close>, the events emitted with their argument, and the log lines with
  the logger that wrote them.
\<close>

datatype ready_state = CONNECTING | OPEN | CLOSING | CLOSED

record client =
  logger :: nat
  appConfig :: nat
  remotePort :: nat
  readyState :: ready_state
  heap :: "nat \<Rightarrow> json"
  nextRef :: nat
  phrases :: nat
  sent :: "frame list"
  emitted :: "(EVENT \<times> nat) list"
  logged :: "(nat \<times> string) list"

text \<open>How a call ends: it returns nothing, it returns an \<^verbatim>\<open>Error\<close> object, or it throws.\<close>

datatype completion = Return_undefined | Return_Error string | Throw exn

text \<open>The constructor: \<^verbatim>\<open>super(url)\<close> starts connecting, then the two fields are set.\<close>

definition Client :: "nat \<Rightarrow> nat \<Rightarrow> nat \<Rightarrow> (nat \<Rightarrow> json) \<Rightarrow> nat \<Rightarrow> client" where
  "Client port lg conf h n =
     \<lparr>logger = lg, appConfig = conf, remotePort = port, readyState = CONNECTING,
      heap = h, nextRef = n, phrases = 0, sent = [], emitted = [], logged = []\<rparr>"

text \<open>\<^verbatim>\<open>this._logger.push(...).log(text)\<close>\<close>

definition log :: "string \<Rightarrow> client \<Rightarrow> client" where
  "log text s = s\<lparr>logged := logged s @ [(logger s, text)]\<rparr>"

text \<open>
  \<^verbatim>\<open>send\<close>: a string goes out as it is, anything else is serialised first. The body of the
  async function runs at the call, up to handing the data to the websocket.
\<close>

definition send :: "frame + json \<Rightarrow> client \<Rightarrow> client" where
  "send msg s =
     (let data = (case msg of Inl text \<Rightarrow> text | Inr v \<Rightarrow> serialise v);
          s1 = log ''Sending message'' s
      in s1\<lparr>sent := sent s1 @ [data]\<rparr>)"

text \<open>\<^verbatim>\<open>receive\<close>, at the message it waits for: the message is decoded, logged and handed on.\<close>

definition receive :: "runtime \<Rightarrow> frame \<Rightarrow> client \<Rightarrow> (exn + json) \<times> client" where
  "receive rt data s =
     (case deserialise rt data of
        None \<Rightarrow> (Inl SyntaxError, s)
      | Some msg \<Rightarrow> (Inr msg, log ''Received'' s))"

text \<open>\<^verbatim>\<open>stop\<close>: the websocket's \<^verbatim>\<open>close\<close> does nothing on a closed socket and starts closing any other.\<close>

definition stop :: "client \<Rightarrow> client" where
  "stop s =
     (let s1 = log ''Control client shutting down...'' s
      in s1\<lparr>readyState := (if readyState s1 = CLOSED then CLOSED else CLOSING)\<rparr>)"

text \<open>
  \<^verbatim>\<open>reconfigure\<close>: the defaults of the three arguments are taken when the method is called;
  the assignments happen when the function it returns is called.
\<close>

record reconfigure_args =
  logger_arg :: "nat option"
  port_arg :: "nat option"
  appConfig_arg :: "nat option"

text \<open>
  The function \<^verbatim>\<open>reconfigure\<close> returns has no name in the source; it is called \<open>restart\<close>
  here, after the line it logs. \<open>lg\<close> and \<open>conf\<close> are the logger and the configuration it
  has captured.
\<close>

definition restart :: "nat \<Rightarrow> nat \<Rightarrow> client \<Rightarrow> client" where
  "restart lg conf s = log ''restarted'' (s\<lparr>logger := lg, appConfig := conf\<rparr>)"

definition reconfigure :: "reconfigure_args \<Rightarrow> client \<Rightarrow> exn + (client \<Rightarrow> client)" where
  "reconfigure a s =
     (let lg = (case logger_arg a of None \<Rightarrow> logger s | Some l \<Rightarrow> l);
          port = (case port_arg a of None \<Rightarrow> 0 | Some p \<Rightarrow> p);
          conf = (case appConfig_arg a of None \<Rightarrow> appConfig s | Some c \<Rightarrow> c)
      in if port = remotePort s then Inr (restart lg conf)
         else Inl (AssertionError ''Cannot reconfigure running port''))"

text \<open>
  Reading a property of a decoded message. \<^verbatim>\<open>null\<close> has no properties and the read throws;
  an object has its own properties; a number, string, boolean, array or Buffer has none of
  the four properties the handler reads (\<^verbatim>\<open>msg\<close>, \<^verbatim>\<open>verb\<close>, \<^verbatim>\<open>data\<close>, \<^verbatim>\<open>id\<close>).
\<close>

fun property :: "json \<Rightarrow> string \<Rightarrow> exn + json option" where
  "property JNull k = Inl TypeError"
| "property (JObj kvs) k = Inr (map_of kvs k)"
| "property v k = Inr None"

text \<open>\<^verbatim>\<open>this.emit(event, arg)\<close>\<close>

definition emit :: "EVENT \<Rightarrow> nat \<Rightarrow> client \<Rightarrow> client" where
  "emit ev r s = s\<lparr>emitted := emitted s @ [(ev, r)]\<rparr>"

text \<open>A new object holding \<open>v\<close>.\<close>

definition alloc :: "json \<Rightarrow> client \<Rightarrow> nat \<times> client" where
  "alloc v s = (nextRef s, s\<lparr>heap := (heap s)(nextRef s := v), nextRef := Suc (nextRef s)\<rparr>)"

text \<open>
  The statement \<^verbatim>\<open>jsonPatch.applyPatch(dup, msg.data)\<close>: the call works on the object it
  is given (the comment of line 338: fast-json-patch explicitly mutates), and what it
  returns is dropped.
\<close>

definition jsonPatch_applyPatch :: "runtime \<Rightarrow> nat \<Rightarrow> json option \<Rightarrow> client \<Rightarrow> exn option \<times> client" where
  "jsonPatch_applyPatch rt r patch s =
     (let (doc, thrown) = applyPatch rt (heap s r) patch
      in (thrown, s\<lparr>heap := (heap s)(r := doc)\<rparr>))"

text \<open>
  The \<^verbatim>\<open>PATCH\<close> case of \<^verbatim>\<open>_handle\<close>. \<^verbatim>\<open>dup\<close> is a new object, parsed from the text of the
  stored configuration; \<^verbatim>\<open>applyPatch\<close> works on \<^verbatim>\<open>dup\<close>, and when it throws nothing after
  it runs. \<^verbatim>\<open>emit\<close> calls the listeners of the event before it returns, and nothing follows
  it in \<^verbatim>\<open>_handle\<close>: the state a listener finds is the state this function returns.
\<close>

definition handle_PATCH :: "runtime \<Rightarrow> json option \<Rightarrow> client \<Rightarrow> completion \<times> client" where
  "handle_PATCH rt data s =
     (case JSON_parse (JSON_stringify (heap s (appConfig s))) of
        None \<Rightarrow> (Throw SyntaxError, s)
      | Some v \<Rightarrow>
          (let (dup, s1) = alloc v s;
               (thrown, s2) = jsonPatch_applyPatch rt dup data s1
           in case thrown of
                Some e \<Rightarrow> (Throw e, s2)
              | None \<Rightarrow> (Return_undefined, emit RECONFIGURE dup (log ''Emitting new configuration'' s2))))"

text \<open>\<^verbatim>\<open>this.send(build.ERROR.NOTIFY.X(id))\<close>, as \<^verbatim>\<open>_handle\<close> calls it.\<close>

definition send_ERROR :: "runtime \<Rightarrow> ERROR \<Rightarrow> json option \<Rightarrow> client \<Rightarrow> client" where
  "send_ERROR rt e ident s =
     (let (data, n) = build_ERROR_NOTIFY rt e ident (phrases s)
      in send (Inl data) (s\<lparr>phrases := n\<rparr>))"

text \<open>\<^verbatim>\<open>_handle\<close>: handle incoming message from the server.\<close>

definition handle :: "runtime \<Rightarrow> frame \<Rightarrow> client \<Rightarrow> completion \<times> client" where
  "handle rt data s =
     (case deserialise rt data of
        None \<Rightarrow>
          (Return_Error ''Couldn't parse received message'',
           send_ERROR rt JSON_PARSE_ERROR None (log ''Couldn't parse received message'' s))
      | Some msg \<Rightarrow>
          (let s1 = log ''Handling received message'' s
           in case property msg ''msg'' of
                Inl e \<Rightarrow> (Throw e, s1)
              | Inr kind \<Rightarrow>
                  if kind = Some (JStr (MESSAGE_str CONFIGURATION)) then
                    (case property msg ''verb'' of
                       Inl e \<Rightarrow> (Throw e, s1)
                     | Inr verb \<Rightarrow>
                         if verb = Some (JStr (VERB_str NOTIFY)) then (Return_undefined, s1)
                         else if verb = Some (JStr (VERB_str PATCH)) then
                           (case property msg ''data'' of
                              Inl e \<Rightarrow> (Throw e, s1)
                            | Inr data \<Rightarrow> handle_PATCH rt data s1)
                         else
                           (case property msg ''id'' of
                              Inl e \<Rightarrow> (Throw e, s1)
                            | Inr ident \<Rightarrow> (Return_undefined, send_ERROR rt UNSUPPORTED_VERB ident s1)))
                  else
                    (case property msg ''id'' of
                       Inl e \<Rightarrow> (Throw e, s1)
                     | Inr ident \<Rightarrow> (Return_undefined, send_ERROR rt UNSUPPORTED_MESSAGE ident s1))))"

text \<open>
  The \<^verbatim>\<open>message\<close> event of the websocket with \<^verbatim>\<open>_handle\<close> as its listener, and one
  listener of \<^verbatim>\<open>RECONFIGURE\<close>: the listener runs inside \<^verbatim>\<open>emit\<close>, on the document emitted.
\<close>

definition dispatch :: "runtime \<Rightarrow> (nat \<Rightarrow> client \<Rightarrow> client) \<Rightarrow> frame \<Rightarrow> client \<Rightarrow> client" where
  "dispatch rt listener data s =
     (let s1 = snd (handle rt data s)
      in if length (emitted s) < length (emitted s1) then listener (snd (last (emitted s1))) s1
         else s1)"

text \<open>
  A listener that installs the document it is given:
  \<^verbatim>\<open>client.reconfigure({ port: client._socket.remotePort, appConfig: conf })()\<close>.
\<close>

definition install :: "nat \<Rightarrow> client \<Rightarrow> client" where
  "install conf s =
     (case reconfigure \<lparr>logger_arg = None, port_arg = Some (remotePort s), appConfig_arg = Some conf\<rparr> s of
        Inl e \<Rightarrow> s
      | Inr restart_fn \<Rightarrow> restart_fn s)"

text \<open>No listener of \<^verbatim>\<open>RECONFIGURE\<close> is registered.\<close>

definition no_listener :: "nat \<Rightarrow> client \<Rightarrow> client" where
  "no_listener conf s = s"

section \<open>Patch sets\<close>

text \<open>
  Modelled from the spec: \<^verbatim>\<open>jsonPatch.applyPatch\<close> belongs to the fast-json-patch package,
  which is not under src/. A patch set is an ordered array of \<^verbatim>\<open>{op, path, value?, from?}\<close>
  operations (add, remove, replace, move, copy, test), each keyed by a path into the
  document; an operation that cannot be satisfied fails with \<^verbatim>\<open>PATH_NOT_FOUND\<close> or
  \<^verbatim>\<open>TEST_FAILED\<close>, and the operations after it are not run. The operations run in order on
  the object the call is given, as \<^verbatim>\<open>_handle\<close> relies on. This model supplies the
  \<open>applyPatch\<close> of the sample runtime below; the theorems on \<^verbatim>\<open>_handle\<close> hold for every
  runtime.
\<close>

datatype patch_op =
    Add "string list" json
  | Remove "string list"
  | Replace "string list" json
  | Move "string list" "string list"
  | Copy "string list" "string list"
  | Test "string list" json

text \<open>A path is \<^verbatim>\<open>/\<close>-separated; \<^verbatim>\<open>~1\<close> stands for \<^verbatim>\<open>/\<close> and \<^verbatim>\<open>~0\<close> for \<^verbatim>\<open>~\<close> in a key.\<close>

fun split_slash :: "string \<Rightarrow> string list" where
  "split_slash [] = [[]]"
| "split_slash (c # cs) =
     (if c = CHR ''/'' then [] # split_slash cs
      else (case split_slash cs of [] \<Rightarrow> [[c]] | k # ks \<Rightarrow> (c # k) # ks))"

fun unescape :: "string \<Rightarrow> string" where
  "unescape (c # d # cs) =
     (if c = CHR ''~'' \<and> d = CHR ''1'' then CHR ''/'' # unescape cs
      else if c = CHR ''~'' \<and> d = CHR ''0'' then CHR ''~'' # unescape cs
      else c # unescape (d # cs))"
| "unescape cs = cs"

definition path_keys :: "string \<Rightarrow> string list option" where
  "path_keys p =
     (case p of
        [] \<Rightarrow> Some []
      | c # cs \<Rightarrow> if c = CHR ''/'' then Some (map unescape (split_slash cs)) else None)"

definition array_index :: "string \<Rightarrow> nat option" where
  "array_index k =
     (if k \<noteq> [] \<and> list_all (\<lambda>c. c \<in> set ''0123456789'') k
      then Some (foldl (\<lambda>n c. 10 * n + (of_char c - 48)) 0 k)
      else None)"

definition decode_op :: "json \<Rightarrow> patch_op option" where
  "decode_op v =
     (case v of
        JObj kvs \<Rightarrow>
          (case (map_of kvs ''op'', map_of kvs ''path'') of
             (Some (JStr name), Some (JStr p)) \<Rightarrow>
               (case path_keys p of
                  None \<Rightarrow> None
                | Some ks \<Rightarrow>
                    if name = ''add'' then map_option (Add ks) (map_of kvs ''value'')
                    else if name = ''remove'' then Some (Remove ks)
                    else if name = ''replace'' then map_option (Replace ks) (map_of kvs ''value'')
                    else if name = ''test'' then map_option (Test ks) (map_of kvs ''value'')
                    else if name = ''move'' \<or> name = ''copy'' then
                      (case map_of kvs ''from'' of
                         Some (JStr f) \<Rightarrow>
                           map_option (\<lambda>fs. if name = ''move'' then Move fs ks else Copy fs ks) (path_keys f)
                       | _ \<Rightarrow> None)
                    else None)
           | _ \<Rightarrow> None)
      | _ \<Rightarrow> None)"

fun decode_ops :: "json list \<Rightarrow> patch_op list option" where
  "decode_ops [] = Some []"
| "decode_ops (v # vs) =
     (case decode_op v of
        None \<Rightarrow> None
      | Some p \<Rightarrow> map_option ((#) p) (decode_ops vs))"

fun get_at :: "string list \<Rightarrow> json \<Rightarrow> json option" where
  "get_at [] d = Some d"
| "get_at (k # ks) (JObj kvs) = (case map_of kvs k of None \<Rightarrow> None | Some v \<Rightarrow> get_at ks v)"
| "get_at (k # ks) (JArr xs) =
     (case array_index k of
        None \<Rightarrow> None
      | Some i \<Rightarrow> if i < length xs then get_at ks (xs ! i) else None)"
| "get_at (k # ks) d = None"

text \<open>\<open>edit_at ks leaf d\<close> walks to the parent of the last key and runs \<open>leaf\<close> there.\<close>

fun edit_at :: "string list \<Rightarrow> (json \<Rightarrow> string \<Rightarrow> json option) \<Rightarrow> json \<Rightarrow> json option" where
  "edit_at [] leaf d = None"
| "edit_at [k] leaf d = leaf d k"
| "edit_at (k # ks) leaf (JObj kvs) =
     (case map_of kvs k of
        None \<Rightarrow> None
      | Some v \<Rightarrow> map_option (\<lambda>w. JObj (AList.update k w kvs)) (edit_at ks leaf v))"
| "edit_at (k # ks) leaf (JArr xs) =
     (case array_index k of
        None \<Rightarrow> None
      | Some i \<Rightarrow>
          if i < length xs then map_option (\<lambda>w. JArr (xs[i := w])) (edit_at ks leaf (xs ! i))
          else None)"
| "edit_at (k # ks) leaf d = None"

fun add_leaf :: "json \<Rightarrow> json \<Rightarrow> string \<Rightarrow> json option" where
  "add_leaf v (JObj kvs) k = Some (JObj (AList.update k v kvs))"
| "add_leaf v (JArr xs) k =
     (if k = ''-'' then Some (JArr (xs @ [v]))
      else (case array_index k of
              None \<Rightarrow> None
            | Some i \<Rightarrow> if i \<le> length xs then Some (JArr (take i xs @ v # drop i xs)) else None))"
| "add_leaf v d k = None"

fun remove_leaf :: "json \<Rightarrow> string \<Rightarrow> json option" where
  "remove_leaf (JObj kvs) k =
     (case map_of kvs k of None \<Rightarrow> None | Some v \<Rightarrow> Some (JObj (AList.delete k kvs)))"
| "remove_leaf (JArr xs) k =
     (case array_index k of
        None \<Rightarrow> None
      | Some i \<Rightarrow> if i < length xs then Some (JArr (take i xs @ drop (Suc i) xs)) else None)"
| "remove_leaf d k = None"

fun replace_leaf :: "json \<Rightarrow> json \<Rightarrow> string \<Rightarrow> json option" where
  "replace_leaf v (JObj kvs) k =
     (case map_of kvs k of None \<Rightarrow> None | Some w \<Rightarrow> Some (JObj (AList.update k v kvs)))"
| "replace_leaf v (JArr xs) k =
     (case array_index k of
        None \<Rightarrow> None
      | Some i \<Rightarrow> if i < length xs then Some (JArr (xs[i := v])) else None)"
| "replace_leaf v d k = None"

definition found :: "json option \<Rightarrow> exn + json" where
  "found r = (case r of None \<Rightarrow> Inl PATH_NOT_FOUND | Some d \<Rightarrow> Inr d)"

definition add_at :: "string list \<Rightarrow> json \<Rightarrow> json \<Rightarrow> exn + json" where
  "add_at ks v d = (if ks = [] then Inr v else found (edit_at ks (add_leaf v) d))"

definition remove_at :: "string list \<Rightarrow> json \<Rightarrow> exn + json" where
  "remove_at ks d = (if ks = [] then Inr JNull else found (edit_at ks remove_leaf d))"

fun apply_op :: "patch_op \<Rightarrow> json \<Rightarrow> exn + json" where
  "apply_op (Add ks v) d = add_at ks v d"
| "apply_op (Remove ks) d = remove_at ks d"
| "apply_op (Replace ks v) d = (if ks = [] then Inr v else found (edit_at ks (replace_leaf v) d))"
| "apply_op (Test ks v) d =
     (case get_at ks d of
        None \<Rightarrow> Inl PATH_NOT_FOUND
      | Some w \<Rightarrow> if w = v then Inr d else Inl TEST_FAILED)"
| "apply_op (Move fs ks) d =
     (case get_at fs d of
        None \<Rightarrow> Inl PATH_NOT_FOUND
      | Some v \<Rightarrow> (case remove_at fs d of Inl e \<Rightarrow> Inl e | Inr d1 \<Rightarrow> add_at ks v d1))"
| "apply_op (Copy fs ks) d =
     (case get_at fs d of
        None \<Rightarrow> Inl PATH_NOT_FOUND
      | Some v \<Rightarrow> add_at ks v d)"

fun apply_ops :: "patch_op list \<Rightarrow> json \<Rightarrow> json \<times> exn option" where
  "apply_ops [] d = (d, None)"
| "apply_ops (p # ps) d =
     (case apply_op p d of
        Inl e \<Rightarrow> (d, Some e)
      | Inr d1 \<Rightarrow> apply_ops ps d1)"

text \<open>
  Modelled from the spec: the \<^verbatim>\<open>applyPatch\<close> of fast-json-patch, which is not under src/,
  as the operations above run in order. Data that is not an array of operations is no patch
  set: the call throws at once.
\<close>

definition patch_in_place :: "json \<Rightarrow> json option \<Rightarrow> json \<times> exn option" where
  "patch_in_place d patch =
     (case patch of
        Some (JArr vs) \<Rightarrow>
          (case decode_ops vs of
             None \<Rightarrow> (d, Some TypeError)
           | Some ps \<Rightarrow> apply_ops ps d)
      | _ \<Rightarrow> (d, Some TypeError))"

section \<open>A sample runtime and sample sessions\<close>

text \<open>
  A runtime to run the client on: a \<^verbatim>\<open>Buffer\<close> constructor that keeps the low byte of a
  number and stores 0 for anything else, the patch application above, a \<^verbatim>\<open>compare\<close> that
  replaces the whole document when the two differ, and phrases that differ from call to call.
\<close>

fun byte_of :: "json \<Rightarrow> 8 word" where
  "byte_of (JNum n) = word_of_int n"
| "byte_of v = 0"

definition replace_whole :: "json \<Rightarrow> json \<Rightarrow> json" where
  "replace_whole a b =
     (if a = b then JArr []
      else JArr [JObj [(''op'', JStr ''replace''), (''path'', JStr []), (''value'', b)]])"

definition sample_runtime :: runtime where
  "sample_runtime =
     \<lparr>Buffer_from = map byte_of, applyPatch = patch_in_place, compare = replace_whole,
      randomPhrase = (\<lambda>n. ''phrase'' @ replicate n (CHR ''+''))\<rparr>"

text \<open>The documents \<^verbatim>\<open>{"a":1}\<close>, \<^verbatim>\<open>{"a":2}\<close> and \<^verbatim>\<open>{"a":2,"b":true}\<close>.\<close>

definition doc_a1 :: json where
  "doc_a1 = JObj [(''a'', JNum 1)]"

definition doc_a2 :: json where
  "doc_a2 = JObj [(''a'', JNum 2)]"

definition doc_a2b :: json where
  "doc_a2b = JObj [(''a'', JNum 2), (''b'', JBool True)]"

text \<open>An open session whose configuration, the object 0, holds \<^verbatim>\<open>{"a":1}\<close>.\<close>

definition sample_client :: client where
  "sample_client = (Client 4003 0 0 (\<lambda>r. doc_a1) 1)\<lparr>readyState := OPEN\<rparr>"

definition message :: "string \<Rightarrow> string \<Rightarrow> json \<Rightarrow> string \<Rightarrow> json" where
  "message verb msg data ident =
     JObj [(''verb'', JStr verb), (''msg'', JStr msg), (''data'', data), (''id'', JStr ident)]"

text \<open>Operations of patch sets, and frames that carry them.\<close>

definition replace_a :: json where
  "replace_a = JObj [(''op'', JStr ''replace''), (''path'', JStr ''/a''), (''value'', JNum 2)]"

definition add_b :: json where
  "add_b = JObj [(''op'', JStr ''add''), (''path'', JStr ''/b''), (''value'', JBool True)]"

definition remove_c_d :: json where
  "remove_c_d = JObj [(''op'', JStr ''remove''), (''path'', JStr ''/c/d'')]"

definition patch_frame :: "json list \<Rightarrow> frame" where
  "patch_frame ops = Text (message ''PATCH'' ''CONFIGURATION'' (JArr ops) ''one'')"

definition read_frame :: frame where
  "read_frame = Text (message ''READ'' ''CONFIGURATION'' (JObj []) ''two'')"

definition unknown_frame :: frame where
  "unknown_frame = Text (message ''NOTIFY'' ''UNKNOWN_KIND'' JNull ''three'')"

definition buffer_object :: json where
  "buffer_object = JObj [(''type'', JStr ''Buffer''), (''data'', JArr [JNum 1, JNum 2, JNum 255])]"

definition add_c :: json where
  "add_c = JObj [(''op'', JStr ''add''), (''path'', JStr ''/c''), (''value'', JObj [(''d'', JNum 1)])]"

definition test_a_2 :: json where
  "test_a_2 = JObj [(''op'', JStr ''test''), (''path'', JStr ''/a''), (''value'', JNum 2)]"

text \<open>The message \<^verbatim>\<open>{"verb":"READ","msg":"CONFIGURATION","data":{}}\<close>, which has no id.\<close>

definition read_frame_without_id :: frame where
  "read_frame_without_id =
     Text (JObj [(''verb'', JStr ''READ''), (''msg'', JStr ''CONFIGURATION''), (''data'', JObj [])])"

section \<open>Observations used in the statements\<close>

text \<open>What reading the property \<open>k\<close> of a value gives, where the read does not throw.\<close>

definition property_value :: "json \<Rightarrow> string \<Rightarrow> json option" where
  "property_value msg k = (case property msg k of Inl e \<Rightarrow> None | Inr v \<Rightarrow> v)"

text \<open>The member \<open>k\<close> of the object a frame is the text of, if the frame is the text of an object.\<close>

definition frame_member :: "frame \<Rightarrow> string \<Rightarrow> json option" where
  "frame_member f k = (case f of Text (JObj kvs) \<Rightarrow> map_of kvs k | _ \<Rightarrow> None)"

text \<open>
  A generic object of the Buffer shape: its \<^verbatim>\<open>type\<close> is \<^verbatim>\<open>"Buffer"\<close> and its \<^verbatim>\<open>data\<close> is
  an array. \<open>generic_Buffer_free v\<close> says that no such object occurs in \<open>v\<close>, at any depth.
\<close>

definition Buffer_shaped :: "(string \<times> json) list \<Rightarrow> bool" where
  "Buffer_shaped kvs =
     (map_of kvs ''type'' = Some (JStr ''Buffer'') \<and>
      (case map_of kvs ''data'' of Some (JArr xs) \<Rightarrow> True | _ \<Rightarrow> False))"

primrec generic_Buffer_free :: "json \<Rightarrow> bool" where
  "generic_Buffer_free JNull = True"
| "generic_Buffer_free (JBool b) = True"
| "generic_Buffer_free (JNum n) = True"
| "generic_Buffer_free (JStr s) = True"
| "generic_Buffer_free (JArr xs) = list_all id (map generic_Buffer_free xs)"
| "generic_Buffer_free (JObj kvs) =
     (\<not> Buffer_shaped kvs \<and> list_all snd (map (map_prod id generic_Buffer_free) kvs))"
| "generic_Buffer_free (JBuffer bs) = True"

section \<open>The codec\<close>

lemma map_of_map_prod_id: "map_of (map (map_prod id f) kvs) k = map_option f (map_of kvs k)"
  by (induction kvs) auto

lemma reviver_shape:
  "reviver rt (JObj kvs) =
     (if Buffer_shaped kvs
      then JBuffer (Buffer_from rt (case map_of kvs ''data'' of Some (JArr xs) \<Rightarrow> xs | _ \<Rightarrow> []))
      else JObj kvs)"
  by (auto simp: Buffer_shaped_def split: option.splits json.splits)

lemma generic_Buffer_free_revive: "generic_Buffer_free (revive rt v)"
proof (induction v)
  case (JArr xs)
  then show ?case by (simp add: list_all_iff)
next
  case (JObj kvs)
  have "list_all snd (map (map_prod id generic_Buffer_free) (map (map_prod id (revive rt)) kvs))"
    using JObj by (fastforce simp: list_all_iff)
  then show ?case
    by (simp add: reviver_shape del: reviver.simps)
qed simp_all

lemma revive_Buffer_shaped:
  assumes "map_of kvs ''type'' = Some (JStr ''Buffer'')" and "map_of kvs ''data'' = Some (JArr xs)"
  shows "revive rt (JObj kvs) = JBuffer (Buffer_from rt (map (revive rt) xs))"
  using assms by (simp add: map_of_map_prod_id)

lemma deserialise_buildMsg:
  "deserialise rt (fst (buildMsg rt verb msg data (Some (JStr i)) n)) =
     Some (JObj [(''verb'', JStr (VERB_str verb)), (''msg'', JStr (MESSAGE_str msg)),
                 (''data'', revive rt (toJSON data)), (''id'', JStr i)])"
  "deserialise rt (fst (buildMsg rt verb msg data None n)) =
     Some (JObj [(''verb'', JStr (VERB_str verb)), (''msg'', JStr (MESSAGE_str msg)),
                 (''data'', revive rt (toJSON data)), (''id'', JStr (randomPhrase rt n))])"
  by (simp_all add: buildMsg_def deserialise_def serialise_def JSON_stringify_def JSON_parse_def)

text \<open>
  C9. A decoded object whose \<^verbatim>\<open>type\<close> is \<^verbatim>\<open>"Buffer"\<close> and whose \<^verbatim>\<open>data\<close> is an array comes
  out of \<^verbatim>\<open>deserialise\<close> as a Buffer, built from the revived elements of \<^verbatim>\<open>data\<close>; no generic
  object of that shape is left anywhere in a decoded value; and a message built with a
  string id, or with none, and then decoded has its \<^verbatim>\<open>verb\<close>, \<^verbatim>\<open>msg\<close> and \<^verbatim>\<open>id\<close> as they
  were built, whatever its data holds.
\<close>

theorem deserialise_Buffer:
  "(map_of kvs ''type'' = Some (JStr ''Buffer'') \<and> map_of kvs ''data'' = Some (JArr xs) \<longrightarrow>
      deserialise rt (Text (JObj kvs)) = Some (JBuffer (Buffer_from rt (map (revive rt) xs))))
   \<and> (deserialise rt (Text v) = Some w \<longrightarrow> generic_Buffer_free w)
   \<and> deserialise rt (fst (buildMsg rt verb msg data (Some (JStr i)) n)) =
        Some (JObj [(''verb'', JStr (VERB_str verb)), (''msg'', JStr (MESSAGE_str msg)),
                    (''data'', revive rt (toJSON data)), (''id'', JStr i)])
   \<and> deserialise rt (fst (buildMsg rt verb msg data None n)) =
        Some (JObj [(''verb'', JStr (VERB_str verb)), (''msg'', JStr (MESSAGE_str msg)),
                    (''data'', revive rt (toJSON data)), (''id'', JStr (randomPhrase rt n))])"
  using revive_Buffer_shaped[of kvs xs rt] generic_Buffer_free_revive[of rt v]
    deserialise_buildMsg(1)[of rt verb msg data i n] deserialise_buildMsg(2)[of rt verb msg data n]
  by (auto simp: deserialise_def JSON_parse_def simp del: revive.simps)

theorem deserialise_Buffer_witness:
  "map_of [(''type'', JStr ''Buffer''), (''data'', JArr [JNum 1, JNum 2, JNum 255])] ''type'' =
     Some (JStr ''Buffer'')
   \<and> map_of [(''type'', JStr ''Buffer''), (''data'', JArr [JNum 1, JNum 2, JNum 255])] ''data'' =
     Some (JArr [JNum 1, JNum 2, JNum 255])
   \<and> deserialise sample_runtime (Text buffer_object) = Some (JBuffer [1, 2, 255])
   \<and> deserialise sample_runtime (Text (JObj [(''k'', buffer_object)])) =
     Some (JObj [(''k'', JBuffer [1, 2, 255])])
   \<and> generic_Buffer_free (JObj [(''k'', JBuffer [1, 2, 255])])
   \<and> deserialise sample_runtime
        (fst (buildMsg sample_runtime NOTIFY CONFIGURATION (JObj [(''k'', JBuffer [1, 2, 255])])
               (Some (JStr ''one'')) 0)) =
     Some (message ''NOTIFY'' ''CONFIGURATION'' (JObj [(''k'', JBuffer [1, 2, 255])]) ''one'')"
proof -
  have d: "deserialise sample_runtime (Text (JObj [(''k'', buffer_object)])) =
      Some (JObj [(''k'', JBuffer [1, 2, 255])])"
    by (simp add: deserialise_def JSON_parse_def buffer_object_def sample_runtime_def)
  have r: "revive sample_runtime (toJSON (JObj [(''k'', JBuffer [1, 2, 255])])) =
      JObj [(''k'', JBuffer [1, 2, 255])]"
    by (simp add: sample_runtime_def)
  from deserialise_Buffer[of "[(''type'', JStr ''Buffer''), (''data'', JArr [JNum 1, JNum 2, JNum 255])]"
      "[JNum 1, JNum 2, JNum 255]" sample_runtime "JObj [(''k'', buffer_object)]"
      "JObj [(''k'', JBuffer [1, 2, 255])]" NOTIFY CONFIGURATION "JObj [(''k'', JBuffer [1, 2, 255])]"
      "''one''" 0]
  show ?thesis
    using d r by (simp add: buffer_object_def message_def sample_runtime_def)
qed

lemma frame_member_buildMsg:
  "frame_member (fst (buildMsg rt verb msg data ident n)) ''id'' =
     Some (case ident of None \<Rightarrow> JStr (randomPhrase rt n) | Some i \<Rightarrow> toJSON i)"
  by (simp add: buildMsg_def frame_member_def serialise_def JSON_stringify_def split: option.splits)

lemma handle_Junk:
  "handle rt (Junk raw) s =
     (Return_Error ''Couldn't parse received message'',
      s\<lparr>phrases := Suc (phrases s),
        sent := sent s @ [fst (buildMsg rt NOTIFY ERROR (JStr ''JSON_PARSE_ERROR'') None (phrases s))],
        logged := logged s @ [(logger s, ''Couldn't parse received message''),
                              (logger s, ''Sending message'')]\<rparr>)"
  by (simp add: handle_def deserialise_def JSON_parse_def send_ERROR_def build_ERROR_NOTIFY_def
      buildMsg_def send_def log_def)

text \<open>
  C10. The frame of every builder is the text of an object with an \<^verbatim>\<open>id\<close> member: the
  caller's id when one is passed, and the phrase the generator returns at this call when
  none is. The frame \<^verbatim>\<open>_handle\<close> sends for a frame that is not JSON is built without an id
  and carries the generator's phrase, and the generator has been called once.
\<close>

theorem builders_id_member:
  "frame_member (fst (buildMsg rt verb msg data ident n)) ''id'' =
     Some (case ident of None \<Rightarrow> JStr (randomPhrase rt n) | Some i \<Rightarrow> toJSON i)
   \<and> frame_member (fst (buildPatchConfiguration rt oldConf newConf ident n)) ''id'' =
     Some (case ident of None \<Rightarrow> JStr (randomPhrase rt n) | Some i \<Rightarrow> toJSON i)
   \<and> frame_member (fst (build_CONFIGURATION_READ rt ident n)) ''id'' =
     Some (case ident of None \<Rightarrow> JStr (randomPhrase rt n) | Some i \<Rightarrow> toJSON i)
   \<and> frame_member (fst (build_CONFIGURATION_NOTIFY rt config ident n)) ''id'' =
     Some (case ident of None \<Rightarrow> JStr (randomPhrase rt n) | Some i \<Rightarrow> toJSON i)
   \<and> frame_member (fst (build_ERROR_NOTIFY rt e ident n)) ''id'' =
     Some (case ident of None \<Rightarrow> JStr (randomPhrase rt n) | Some i \<Rightarrow> toJSON i)
   \<and> sent (snd (handle rt (Junk raw) s)) =
     sent s @ [fst (build_ERROR_NOTIFY rt JSON_PARSE_ERROR None (phrases s))]
   \<and> frame_member (last (sent (snd (handle rt (Junk raw) s)))) ''id'' =
     Some (JStr (randomPhrase rt (phrases s)))
   \<and> phrases (snd (handle rt (Junk raw) s)) = Suc (phrases s)"
  by (simp add: frame_member_buildMsg buildPatchConfiguration_def build_CONFIGURATION_READ_def
      build_CONFIGURATION_NOTIFY_def build_ERROR_NOTIFY_def handle_Junk)

section \<open>Inbound dispatch: errors\<close>

text \<open>
  C7. For a frame that is not JSON, \<^verbatim>\<open>_handle\<close> does not throw: it returns an \<^verbatim>\<open>Error\<close>
  object, after logging and handing the websocket one frame, the JSON text of the message
  \<^verbatim>\<open>NOTIFY\<close>/\<^verbatim>\<open>ERROR\<close> with data \<^verbatim>\<open>JSON_PARSE_ERROR\<close>. Nothing else of the client changes; in
  particular the websocket is in the state it was in.
\<close>

theorem handle_not_JSON:
  "deserialise rt (Junk raw) = None
   \<and> handle rt (Junk raw) s =
       (Return_Error ''Couldn't parse received message'',
        s\<lparr>phrases := Suc (phrases s),
          sent := sent s @
            [Text (JObj [(''verb'', JStr ''NOTIFY''), (''msg'', JStr ''ERROR''),
                         (''data'', JStr ''JSON_PARSE_ERROR''),
                         (''id'', JStr (randomPhrase rt (phrases s)))])],
          logged := logged s @ [(logger s, ''Couldn't parse received message''),
                                (logger s, ''Sending message'')]\<rparr>)
   \<and> readyState (snd (handle rt (Junk raw) s)) = readyState s"
  by (simp add: handle_Junk buildMsg_def serialise_def JSON_stringify_def)
    (simp add: deserialise_def JSON_parse_def)

theorem handle_not_JSON_witness:
  "fst (handle sample_runtime (Junk ''{oops'') sample_client) =
     Return_Error ''Couldn't parse received message''
   \<and> sent (snd (handle sample_runtime (Junk ''{oops'') sample_client)) =
     [Text (message ''NOTIFY'' ''ERROR'' (JStr ''JSON_PARSE_ERROR'') ''phrase'')]
   \<and> frame_member (last (sent (snd (handle sample_runtime (Junk ''{oops'') sample_client)))) ''data'' =
     Some (JStr ''JSON_PARSE_ERROR'')
   \<and> readyState (snd (handle sample_runtime (Junk ''{oops'') sample_client)) = OPEN"
  using handle_not_JSON[of sample_runtime "''{oops''" sample_client]
  by (simp add: sample_client_def Client_def sample_runtime_def message_def frame_member_def)

lemma send_ERROR_eq:
  "send_ERROR rt e ident s =
     s\<lparr>phrases := snd (build_ERROR_NOTIFY rt e ident (phrases s)),
       sent := sent s @ [fst (build_ERROR_NOTIFY rt e ident (phrases s))],
       logged := logged s @ [(logger s, ''Sending message'')]\<rparr>"
  by (simp add: send_ERROR_def send_def log_def split: prod.splits)

lemma handle_Text:
  "handle rt (Text v) s =
     (let msg = revive rt v; s1 = log ''Handling received message'' s
      in case property msg ''msg'' of
           Inl e \<Rightarrow> (Throw e, s1)
         | Inr kind \<Rightarrow>
             if kind = Some (JStr ''CONFIGURATION'') then
               (case property msg ''verb'' of
                  Inl e \<Rightarrow> (Throw e, s1)
                | Inr verb \<Rightarrow>
                    if verb = Some (JStr ''NOTIFY'') then (Return_undefined, s1)
                    else if verb = Some (JStr ''PATCH'') then
                      (case property msg ''data'' of
                         Inl e \<Rightarrow> (Throw e, s1)
                       | Inr data \<Rightarrow> handle_PATCH rt data s1)
                    else
                      (case property msg ''id'' of
                         Inl e \<Rightarrow> (Throw e, s1)
                       | Inr ident \<Rightarrow> (Return_undefined, send_ERROR rt UNSUPPORTED_VERB ident s1)))
             else
               (case property msg ''id'' of
                  Inl e \<Rightarrow> (Throw e, s1)
                | Inr ident \<Rightarrow> (Return_undefined, send_ERROR rt UNSUPPORTED_MESSAGE ident s1)))"
  by (simp add: handle_def deserialise_def JSON_parse_def Let_def del: revive.simps
      cong: sum.case_cong if_cong)

lemma property_value: "msg \<noteq> JNull \<Longrightarrow> property msg k = Inr (property_value msg k)"
  by (cases msg) (simp_all add: property_value_def)

text \<open>The frame of an error answer, as it goes out.\<close>

lemma build_ERROR_NOTIFY_frame:
  "build_ERROR_NOTIFY rt e ident n =
     (Text (JObj [(''verb'', JStr ''NOTIFY''), (''msg'', JStr ''ERROR''),
                  (''data'', JStr (ERROR_str e)),
                  (''id'', (case ident of None \<Rightarrow> JStr (randomPhrase rt n) | Some i \<Rightarrow> toJSON i))]),
      (case ident of None \<Rightarrow> Suc n | Some i \<Rightarrow> n))"
  by (simp add: build_ERROR_NOTIFY_def buildMsg_def serialise_def JSON_stringify_def
      split: option.splits)

text \<open>
  C8, as the code has it. A frame that decodes to anything but \<^verbatim>\<open>null\<close> and whose \<^verbatim>\<open>msg\<close> is
  \<^verbatim>\<open>CONFIGURATION\<close> with a verb that is neither \<^verbatim>\<open>NOTIFY\<close> nor \<^verbatim>\<open>PATCH\<close> is answered with the
  JSON text of \<^verbatim>\<open>NOTIFY\<close>/\<^verbatim>\<open>ERROR\<close>, data \<^verbatim>\<open>UNSUPPORTED_VERB\<close>; one whose \<^verbatim>\<open>msg\<close> is anything
  but \<^verbatim>\<open>CONFIGURATION\<close> (an absent one too) is answered with data \<^verbatim>\<open>UNSUPPORTED_MESSAGE\<close>.
  The answer carries the id of the message when the message has one, and the phrase the
  generator returns when it has none. Nothing else is sent, nothing is emitted, and the
  call returns.
\<close>

theorem handle_unsupported:
  assumes "deserialise rt data = Some msg"
    and "msg \<noteq> JNull"
  shows "(property_value msg ''msg'' = Some (JStr ''CONFIGURATION'')
            \<and> property_value msg ''verb'' \<noteq> Some (JStr ''NOTIFY'')
            \<and> property_value msg ''verb'' \<noteq> Some (JStr ''PATCH'') \<longrightarrow>
           handle rt data s =
             (Return_undefined,
              s\<lparr>phrases := (case property_value msg ''id'' of
                               None \<Rightarrow> Suc (phrases s) | Some i \<Rightarrow> phrases s),
                sent := sent s @
                   [Text (JObj [(''verb'', JStr ''NOTIFY''), (''msg'', JStr ''ERROR''),
                                (''data'', JStr ''UNSUPPORTED_VERB''),
                                (''id'', (case property_value msg ''id'' of
                                            None \<Rightarrow> JStr (randomPhrase rt (phrases s))
                                          | Some i \<Rightarrow> toJSON i))])],
                logged := logged s @ [(logger s, ''Handling received message''),
                                      (logger s, ''Sending message'')]\<rparr>))
       \<and> (property_value msg ''msg'' \<noteq> Some (JStr ''CONFIGURATION'') \<longrightarrow>
           handle rt data s =
             (Return_undefined,
              s\<lparr>phrases := (case property_value msg ''id'' of
                               None \<Rightarrow> Suc (phrases s) | Some i \<Rightarrow> phrases s),
                sent := sent s @
                   [Text (JObj [(''verb'', JStr ''NOTIFY''), (''msg'', JStr ''ERROR''),
                                (''data'', JStr ''UNSUPPORTED_MESSAGE''),
                                (''id'', (case property_value msg ''id'' of
                                            None \<Rightarrow> JStr (randomPhrase rt (phrases s))
                                          | Some i \<Rightarrow> toJSON i))])],
                logged := logged s @ [(logger s, ''Handling received message''),
                                      (logger s, ''Sending message'')]\<rparr>))"
proof -
  obtain v where v: "data = Text v" "msg = revive rt v"
    using assms(1) by (cases data) (auto simp: deserialise_def JSON_parse_def)
  have p: "property (revive rt v) k = Inr (property_value (revive rt v) k)" for k
    using assms(2) v(2) by (simp add: property_value)
  show ?thesis
    unfolding v handle_Text
    by (simp add: Let_def p send_ERROR_eq build_ERROR_NOTIFY_frame log_def del: revive.simps)
qed

theorem handle_unsupported_witness:
  "deserialise sample_runtime read_frame = Some (message ''READ'' ''CONFIGURATION'' (JObj []) ''two'')
   \<and> message ''READ'' ''CONFIGURATION'' (JObj []) ''two'' \<noteq> JNull
   \<and> sent (snd (handle sample_runtime read_frame sample_client)) =
       [Text (message ''NOTIFY'' ''ERROR'' (JStr ''UNSUPPORTED_VERB'') ''two'')]
   \<and> fst (handle sample_runtime read_frame sample_client) = Return_undefined
   \<and> deserialise sample_runtime unknown_frame = Some (message ''NOTIFY'' ''UNKNOWN_KIND'' JNull ''three'')
   \<and> sent (snd (handle sample_runtime unknown_frame sample_client)) =
       [Text (message ''NOTIFY'' ''ERROR'' (JStr ''UNSUPPORTED_MESSAGE'') ''three'')]
   \<and> fst (handle sample_runtime unknown_frame sample_client) = Return_undefined
   \<and> deserialise sample_runtime read_frame_without_id =
       Some (JObj [(''verb'', JStr ''READ''), (''msg'', JStr ''CONFIGURATION''), (''data'', JObj [])])
   \<and> sent (snd (handle sample_runtime read_frame_without_id sample_client)) =
       [Text (message ''NOTIFY'' ''ERROR'' (JStr ''UNSUPPORTED_VERB'') ''phrase'')]"
proof -
  have d1: "deserialise sample_runtime read_frame = Some (message ''READ'' ''CONFIGURATION'' (JObj []) ''two'')"
    by (simp add: deserialise_def JSON_parse_def read_frame_def message_def)
  have d2: "deserialise sample_runtime unknown_frame = Some (message ''NOTIFY'' ''UNKNOWN_KIND'' JNull ''three'')"
    by (simp add: deserialise_def JSON_parse_def unknown_frame_def message_def)
  have d3: "deserialise sample_runtime read_frame_without_id =
      Some (JObj [(''verb'', JStr ''READ''), (''msg'', JStr ''CONFIGURATION''), (''data'', JObj [])])"
    by (simp add: deserialise_def JSON_parse_def read_frame_without_id_def)
  have n: "message verb msg data ident \<noteq> JNull" for verb msg data ident
    by (simp add: message_def)
  have s0: "sent sample_client = []" "phrases sample_client = 0"
    by (simp_all add: sample_client_def Client_def)
  from handle_unsupported[OF d1 n, of sample_client] handle_unsupported[OF d2 n, of sample_client]
    handle_unsupported[OF d3, of sample_client]
  show ?thesis
    using d1 d2 d3 by (simp add: n s0 message_def property_value_def sample_runtime_def)
qed

text \<open>
  C8 as stated fails on two frames the client can receive. A \<^verbatim>\<open>CONFIGURATION\<close>/\<^verbatim>\<open>READ\<close>
  message without an id is answered under a generated phrase, an id the message does not
  have. The frame \<^verbatim>\<open>null\<close> is JSON and has no \<^verbatim>\<open>msg\<close>; reading \<^verbatim>\<open>msg.msg\<close> throws, and nothing
  is sent.
\<close>

theorem handle_unsupported_counterexample:
  "deserialise sample_runtime read_frame_without_id =
     Some (JObj [(''verb'', JStr ''READ''), (''msg'', JStr ''CONFIGURATION''), (''data'', JObj [])])
   \<and> property (JObj [(''verb'', JStr ''READ''), (''msg'', JStr ''CONFIGURATION''), (''data'', JObj [])])
        ''id'' = Inr None
   \<and> frame_member (last (sent (snd (handle sample_runtime read_frame_without_id sample_client)))) ''id'' =
     Some (JStr ''phrase'')
   \<and> deserialise sample_runtime (Text JNull) = Some JNull
   \<and> fst (handle sample_runtime (Text JNull) sample_client) = Throw TypeError
   \<and> sent (snd (handle sample_runtime (Text JNull) sample_client)) = []"
  by (simp add: handle_Text Let_def send_ERROR_eq build_ERROR_NOTIFY_frame log_def frame_member_def
      read_frame_without_id_def deserialise_def JSON_parse_def sample_client_def Client_def
      sample_runtime_def)

section \<open>Inbound dispatch: the stored configuration\<close>

lemma log_frame:
  "appConfig (log t s) = appConfig s"
  "heap (log t s) = heap s"
  "nextRef (log t s) = nextRef s"
  "emitted (log t s) = emitted s"
  "sent (log t s) = sent s"
  "readyState (log t s) = readyState s"
  by (simp_all add: log_def)

lemma send_ERROR_frame:
  "appConfig (send_ERROR rt e ident s) = appConfig s"
  "heap (send_ERROR rt e ident s) = heap s"
  "nextRef (send_ERROR rt e ident s) = nextRef s"
  "emitted (send_ERROR rt e ident s) = emitted s"
  "readyState (send_ERROR rt e ident s) = readyState s"
  by (simp_all add: send_ERROR_def send_def log_def split: prod.splits)

lemma handle_PATCH_eq:
  "handle_PATCH rt data s =
     (let doc = fst (applyPatch rt (toJSON (heap s (appConfig s))) data);
          s2 = s\<lparr>heap := (heap s)(nextRef s := doc), nextRef := Suc (nextRef s)\<rparr>
      in case snd (applyPatch rt (toJSON (heap s (appConfig s))) data) of
           Some e \<Rightarrow> (Throw e, s2)
         | None \<Rightarrow>
             (Return_undefined,
              s2\<lparr>emitted := emitted s @ [(RECONFIGURE, nextRef s)],
                 logged := logged s @ [(logger s, ''Emitting new configuration'')]\<rparr>))"
  by (simp add: handle_PATCH_def JSON_parse_def JSON_stringify_def alloc_def jsonPatch_applyPatch_def
      emit_def log_def Let_def split: prod.splits option.splits)

lemma handle_PATCH_frame:
  "appConfig (snd (handle_PATCH rt data s)) = appConfig s"
  "readyState (snd (handle_PATCH rt data s)) = readyState s"
  "sent (snd (handle_PATCH rt data s)) = sent s"
  "r \<noteq> nextRef s \<Longrightarrow> heap (snd (handle_PATCH rt data s)) r = heap s r"
  by (simp_all add: handle_PATCH_eq Let_def split: option.splits)

lemma handle_appConfig: "appConfig (snd (handle rt data s)) = appConfig s"
  by (simp add: handle_def Let_def handle_PATCH_frame send_ERROR_frame log_frame
      split: option.splits sum.splits)

lemma handle_heap: "r < nextRef s \<Longrightarrow> heap (snd (handle rt data s)) r = heap s r"
  by (simp add: handle_def Let_def handle_PATCH_frame send_ERROR_frame log_frame
      split: option.splits sum.splits)

lemma handle_emitted:
  "emitted (snd (handle rt data s)) = emitted s
   \<or> emitted (snd (handle rt data s)) = emitted s @ [(RECONFIGURE, nextRef s)]"
  by (simp add: handle_def Let_def handle_PATCH_eq send_ERROR_frame log_frame
      split: option.splits sum.splits)

lemma handle_PATCH_message:
  assumes "deserialise rt data = Some msg"
    and "property msg ''msg'' = Inr (Some (JStr ''CONFIGURATION''))"
    and "property msg ''verb'' = Inr (Some (JStr ''PATCH''))"
    and "property msg ''data'' = Inr patch"
  shows "handle rt data s = handle_PATCH rt patch (log ''Handling received message'' s)"
  using assms by (simp add: handle_def)

lemma handle_PATCH_success:
  assumes "deserialise rt data = Some msg"
    and "property msg ''msg'' = Inr (Some (JStr ''CONFIGURATION''))"
    and "property msg ''verb'' = Inr (Some (JStr ''PATCH''))"
    and "property msg ''data'' = Inr patch"
    and "applyPatch rt (toJSON (heap s (appConfig s))) patch = (doc, None)"
  shows "handle rt data s =
           (Return_undefined,
            s\<lparr>heap := (heap s)(nextRef s := doc), nextRef := Suc (nextRef s),
              emitted := emitted s @ [(RECONFIGURE, nextRef s)],
              logged := logged s @ [(logger s, ''Handling received message''),
                                    (logger s, ''Emitting new configuration'')]\<rparr>)"
  using assms(5)
  by (simp add: handle_PATCH_message[OF assms(1-4)] handle_PATCH_eq Let_def log_def)

lemma install_eq: "install conf s = restart (logger s) conf s"
  by (simp add: install_def reconfigure_def)

lemma dispatch_install_PATCH:
  assumes "deserialise rt data = Some msg"
    and "property msg ''msg'' = Inr (Some (JStr ''CONFIGURATION''))"
    and "property msg ''verb'' = Inr (Some (JStr ''PATCH''))"
    and "property msg ''data'' = Inr patch"
    and "applyPatch rt (toJSON (heap s (appConfig s))) patch = (doc, None)"
  shows "dispatch rt install data s =
            s\<lparr>appConfig := nextRef s,
              heap := (heap s)(nextRef s := doc), nextRef := Suc (nextRef s),
              emitted := emitted s @ [(RECONFIGURE, nextRef s)],
              logged := logged s @ [(logger s, ''Handling received message''),
                                    (logger s, ''Emitting new configuration''),
                                    (logger s, ''restarted'')]\<rparr>"
  by (simp add: dispatch_def handle_PATCH_success[OF assms] Let_def install_eq restart_def log_def)

lemma sample_message:
  "property (message verb msg data ident) ''msg'' = Inr (Some (JStr msg))"
  "property (message verb msg data ident) ''verb'' = Inr (Some (JStr verb))"
  "property (message verb msg data ident) ''data'' = Inr (Some data)"
  by (simp_all add: message_def)

lemma sample_patch_frame:
  "deserialise sample_runtime (patch_frame [replace_a, add_b]) =
     Some (message ''PATCH'' ''CONFIGURATION'' (JArr [replace_a, add_b]) ''one'')"
  "deserialise sample_runtime (patch_frame [replace_a]) =
     Some (message ''PATCH'' ''CONFIGURATION'' (JArr [replace_a]) ''one'')"
  "deserialise sample_runtime (patch_frame [add_b]) =
     Some (message ''PATCH'' ''CONFIGURATION'' (JArr [add_b]) ''one'')"
  "deserialise sample_runtime (patch_frame [add_b, test_a_2]) =
     Some (message ''PATCH'' ''CONFIGURATION'' (JArr [add_b, test_a_2]) ''one'')"
  "deserialise sample_runtime (patch_frame [add_c, remove_c_d]) =
     Some (message ''PATCH'' ''CONFIGURATION'' (JArr [add_c, remove_c_d]) ''one'')"
  by (simp_all add: deserialise_def JSON_parse_def patch_frame_def message_def replace_a_def
      add_b_def remove_c_d_def add_c_def test_a_2_def)

lemma sample_client_fields:
  "appConfig sample_client = 0"
  "nextRef sample_client = 1"
  "heap sample_client 0 = doc_a1"
  "emitted sample_client = []"
  "sent sample_client = []"
  "readyState sample_client = OPEN"
  by (simp_all add: sample_client_def Client_def)

text \<open>
  C2. No method assigns \<^verbatim>\<open>_appConfig\<close> or changes the object it refers to: after \<^verbatim>\<open>_handle\<close>,
  on any frame, the field refers to the object it referred to and that object holds what
  it held; \<^verbatim>\<open>send\<close>, \<^verbatim>\<open>receive\<close> and \<^verbatim>\<open>stop\<close> leave the field and the whole store alone;
  \<^verbatim>\<open>reconfigure\<close> itself only fails its assertion or returns a function. Calling that
  function is what assigns the field.
\<close>

theorem appConfig_assigned_by_restart_only:
  assumes "appConfig s < nextRef s"
  shows "appConfig (snd (handle rt data s)) = appConfig s
       \<and> heap (snd (handle rt data s)) (appConfig s) = heap s (appConfig s)
       \<and> appConfig (send m s) = appConfig s \<and> heap (send m s) = heap s
       \<and> appConfig (snd (receive rt data s)) = appConfig s \<and> heap (snd (receive rt data s)) = heap s
       \<and> appConfig (stop s) = appConfig s \<and> heap (stop s) = heap s
       \<and> (reconfigure a s = Inl (AssertionError ''Cannot reconfigure running port'')
          \<or> reconfigure a s =
              Inr (restart (case logger_arg a of None \<Rightarrow> logger s | Some l \<Rightarrow> l)
                           (case appConfig_arg a of None \<Rightarrow> appConfig s | Some c \<Rightarrow> c)))
       \<and> appConfig (restart lg conf s) = conf"
  using assms
  by (simp add: handle_appConfig handle_heap send_def log_def receive_def stop_def reconfigure_def
      restart_def Let_def split: option.splits)

theorem appConfig_assigned_by_restart_only_witness:
  "appConfig sample_client < nextRef sample_client
   \<and> appConfig (snd (handle sample_runtime (patch_frame [replace_a, add_b]) sample_client)) = 0
   \<and> heap (snd (handle sample_runtime (patch_frame [replace_a, add_b]) sample_client)) 0 = doc_a1
   \<and> appConfig (restart 0 1 sample_client) = 1"
proof -
  have h: "appConfig sample_client < nextRef sample_client"
    by (simp add: sample_client_fields)
  from appConfig_assigned_by_restart_only[OF h, of sample_runtime "patch_frame [replace_a, add_b]"]
  show ?thesis
    using h by (simp add: sample_client_fields)
qed

text \<open>
  C4, as the code has it. A \<^verbatim>\<open>CONFIGURATION\<close>/\<^verbatim>\<open>PATCH\<close> message never changes the stored
  configuration, whether the patch set applies or not. When \<^verbatim>\<open>applyPatch\<close> throws,
  \<^verbatim>\<open>_handle\<close> ends with that exception, emits nothing and sends nothing: what the operations
  before the failing one did stays in the copy, which nothing refers to. When it does not
  throw, the one document emitted is the copy with the whole patch set applied.
\<close>

theorem handle_PATCH_failure:
  assumes "appConfig s < nextRef s"
    and "deserialise rt data = Some msg"
    and "property msg ''msg'' = Inr (Some (JStr ''CONFIGURATION''))"
    and "property msg ''verb'' = Inr (Some (JStr ''PATCH''))"
    and "property msg ''data'' = Inr patch"
  shows "appConfig (snd (handle rt data s)) = appConfig s
       \<and> heap (snd (handle rt data s)) (appConfig s) = heap s (appConfig s)
       \<and> (snd (applyPatch rt (toJSON (heap s (appConfig s))) patch) = Some e \<longrightarrow>
            fst (handle rt data s) = Throw e
            \<and> emitted (snd (handle rt data s)) = emitted s
            \<and> sent (snd (handle rt data s)) = sent s)
       \<and> (snd (applyPatch rt (toJSON (heap s (appConfig s))) patch) = None \<longrightarrow>
            fst (handle rt data s) = Return_undefined
            \<and> emitted (snd (handle rt data s)) = emitted s @ [(RECONFIGURE, nextRef s)]
            \<and> heap (snd (handle rt data s)) (nextRef s) =
                fst (applyPatch rt (toJSON (heap s (appConfig s))) patch)
            \<and> sent (snd (handle rt data s)) = sent s)"
  using assms(1)
  by (simp add: handle_PATCH_message[OF assms(2-5)] handle_PATCH_eq Let_def log_def
      split: option.splits)

lemma sample_applyPatch:
  "applyPatch sample_runtime doc_a1 (Some (JArr [replace_a, add_b])) = (doc_a2b, None)"
  "applyPatch sample_runtime doc_a1 (Some (JArr [replace_a])) = (doc_a2, None)"
  "applyPatch sample_runtime doc_a2 (Some (JArr [add_b])) = (doc_a2b, None)"
  "applyPatch sample_runtime doc_a1 (Some (JArr [add_b])) =
     (JObj [(''a'', JNum 1), (''b'', JBool True)], None)"
  "applyPatch sample_runtime doc_a1 (Some (JArr [add_b, test_a_2])) =
     (JObj [(''a'', JNum 1), (''b'', JBool True)], Some TEST_FAILED)"
  "applyPatch sample_runtime doc_a1 (Some (JArr [add_c, remove_c_d])) =
     (JObj [(''a'', JNum 1), (''c'', JObj [])], None)"
  by code_simp+

lemma sample_toJSON:
  "toJSON doc_a1 = doc_a1"
  "toJSON doc_a2 = doc_a2"
  "doc_a1 \<noteq> doc_a2b"
  by (simp_all add: doc_a1_def doc_a2_def doc_a2b_def)

theorem handle_PATCH_failure_witness:
  "appConfig sample_client < nextRef sample_client
   \<and> deserialise sample_runtime (patch_frame [add_b, test_a_2]) =
       Some (message ''PATCH'' ''CONFIGURATION'' (JArr [add_b, test_a_2]) ''one'')
   \<and> applyPatch sample_runtime (toJSON (heap sample_client (appConfig sample_client)))
       (Some (JArr [add_b, test_a_2])) =
       (JObj [(''a'', JNum 1), (''b'', JBool True)], Some TEST_FAILED)
   \<and> fst (handle sample_runtime (patch_frame [add_b, test_a_2]) sample_client) = Throw TEST_FAILED
   \<and> heap (snd (handle sample_runtime (patch_frame [add_b, test_a_2]) sample_client)) 0 = doc_a1
   \<and> emitted (snd (handle sample_runtime (patch_frame [add_b, test_a_2]) sample_client)) = []
   \<and> sent (snd (handle sample_runtime (patch_frame [add_b, test_a_2]) sample_client)) = []
   \<and> snd (applyPatch sample_runtime (toJSON (heap sample_client (appConfig sample_client)))
       (Some (JArr [replace_a, add_b]))) = None
   \<and> emitted (snd (handle sample_runtime (patch_frame [replace_a, add_b]) sample_client)) =
       [(RECONFIGURE, 1)]
   \<and> heap (snd (handle sample_runtime (patch_frame [replace_a, add_b]) sample_client)) 1 = doc_a2b"
proof -
  have h: "appConfig sample_client < nextRef sample_client"
    by (simp add: sample_client_fields)
  have a: "applyPatch sample_runtime (toJSON (heap sample_client (appConfig sample_client)))
       (Some (JArr [add_b, test_a_2])) =
       (JObj [(''a'', JNum 1), (''b'', JBool True)], Some TEST_FAILED)"
    by (simp add: sample_client_fields sample_toJSON sample_applyPatch)
  have b: "applyPatch sample_runtime (toJSON (heap sample_client (appConfig sample_client)))
       (Some (JArr [replace_a, add_b])) = (doc_a2b, None)"
    by (simp add: sample_client_fields sample_toJSON sample_applyPatch)
  from handle_PATCH_failure[OF h sample_patch_frame(4) sample_message, of TEST_FAILED]
    handle_PATCH_failure[OF h sample_patch_frame(1) sample_message, of TEST_FAILED]
  show ?thesis
    using h a b by (simp add: sample_client_fields sample_patch_frame)
qed

text \<open>
  C4 as stated fails: the path \<^verbatim>\<open>/c/d\<close> is absent from \<^verbatim>\<open>{"a":1}\<close>, and the patch set that
  adds \<^verbatim>\<open>/c\<close> as \<^verbatim>\<open>{"d":1}\<close> and then removes \<^verbatim>\<open>/c/d\<close> does not abort: \<^verbatim>\<open>_handle\<close> returns and
  emits \<^verbatim>\<open>{"a":1,"c":{}}\<close>.
\<close>

theorem handle_PATCH_absent_path_counterexample:
  "heap sample_client (appConfig sample_client) = doc_a1
   \<and> get_at [''c'', ''d''] doc_a1 = None
   \<and> deserialise sample_runtime (patch_frame [add_c, remove_c_d]) =
       Some (message ''PATCH'' ''CONFIGURATION'' (JArr [add_c, remove_c_d]) ''one'')
   \<and> fst (handle sample_runtime (patch_frame [add_c, remove_c_d]) sample_client) = Return_undefined
   \<and> emitted (snd (handle sample_runtime (patch_frame [add_c, remove_c_d]) sample_client)) =
       [(RECONFIGURE, 1)]
   \<and> heap (snd (handle sample_runtime (patch_frame [add_c, remove_c_d]) sample_client)) 1 =
       JObj [(''a'', JNum 1), (''c'', JObj [])]"
proof -
  have a: "applyPatch sample_runtime (toJSON (heap sample_client (appConfig sample_client)))
       (Some (JArr [add_c, remove_c_d])) = (JObj [(''a'', JNum 1), (''c'', JObj [])], None)"
    by (simp add: sample_client_fields sample_toJSON sample_applyPatch)
  have g: "get_at [''c'', ''d''] doc_a1 = None"
    by (simp add: doc_a1_def)
  show ?thesis
    unfolding handle_PATCH_success[OF sample_patch_frame(5) sample_message a]
    using g by (simp add: sample_client_fields sample_patch_frame)
qed

section \<open>Inbound dispatch: a patch that applies\<close>

text \<open>
  C1, as the code has it. When the patch set applies to the copy of the stored
  configuration, \<^verbatim>\<open>_handle\<close> returns after emitting \<^verbatim>\<open>RECONFIGURE\<close> exactly once, with a new
  object that holds the patched document, and sends nothing. It does not replace the
  stored configuration: in the state a listener of \<^verbatim>\<open>RECONFIGURE\<close> finds, \<^verbatim>\<open>_appConfig\<close> is the
  object it was, holding what it held. The stored configuration is the patched document
  once a listener has called the function \<^verbatim>\<open>reconfigure\<close> returns for it.
\<close>

theorem handle_PATCH_emits_patched_copy:
  assumes "appConfig s < nextRef s"
    and "deserialise rt data = Some msg"
    and "property msg ''msg'' = Inr (Some (JStr ''CONFIGURATION''))"
    and "property msg ''verb'' = Inr (Some (JStr ''PATCH''))"
    and "property msg ''data'' = Inr patch"
    and "applyPatch rt (toJSON (heap s (appConfig s))) patch = (doc, None)"
  shows "fst (handle rt data s) = Return_undefined
       \<and> emitted (snd (handle rt data s)) = emitted s @ [(RECONFIGURE, nextRef s)]
       \<and> heap (snd (handle rt data s)) (nextRef s) = doc
       \<and> sent (snd (handle rt data s)) = sent s
       \<and> appConfig (snd (handle rt data s)) = appConfig s
       \<and> heap (snd (handle rt data s)) (appConfig s) = heap s (appConfig s)
       \<and> heap (dispatch rt install data s) (appConfig (dispatch rt install data s)) = doc"
  using assms(1)
  by (simp add: dispatch_install_PATCH[OF assms(2-6)] handle_PATCH_success[OF assms(2-6)])

theorem handle_PATCH_emits_patched_copy_witness:
  "appConfig sample_client < nextRef sample_client
   \<and> deserialise sample_runtime (patch_frame [replace_a, add_b]) =
       Some (message ''PATCH'' ''CONFIGURATION'' (JArr [replace_a, add_b]) ''one'')
   \<and> applyPatch sample_runtime (toJSON (heap sample_client (appConfig sample_client)))
       (Some (JArr [replace_a, add_b])) = (doc_a2b, None)
   \<and> emitted (snd (handle sample_runtime (patch_frame [replace_a, add_b]) sample_client)) =
       [(RECONFIGURE, 1)]
   \<and> heap (snd (handle sample_runtime (patch_frame [replace_a, add_b]) sample_client)) 1 = doc_a2b
   \<and> heap (snd (handle sample_runtime (patch_frame [replace_a, add_b]) sample_client)) 0 = doc_a1
   \<and> heap (dispatch sample_runtime install (patch_frame [replace_a, add_b]) sample_client)
        (appConfig (dispatch sample_runtime install (patch_frame [replace_a, add_b]) sample_client)) =
       doc_a2b"
proof -
  have h: "appConfig sample_client < nextRef sample_client"
    by (simp add: sample_client_fields)
  have a: "applyPatch sample_runtime (toJSON (heap sample_client (appConfig sample_client)))
       (Some (JArr [replace_a, add_b])) = (doc_a2b, None)"
    by (simp add: sample_client_fields sample_toJSON sample_applyPatch)
  from handle_PATCH_emits_patched_copy[OF h sample_patch_frame(1) sample_message a]
  show ?thesis
    using h a by (simp add: sample_client_fields sample_patch_frame)
qed

text \<open>
  C1 as stated fails: on \<^verbatim>\<open>{"a":1}\<close> and the patch set to \<^verbatim>\<open>{"a":2,"b":true}\<close>, which
  applies, the stored configuration after \<^verbatim>\<open>_handle\<close> is still \<^verbatim>\<open>{"a":1}\<close>.
\<close>

theorem handle_PATCH_snapshot_counterexample:
  "readyState sample_client = OPEN
   \<and> heap sample_client (appConfig sample_client) = doc_a1
   \<and> deserialise sample_runtime (patch_frame [replace_a, add_b]) =
       Some (message ''PATCH'' ''CONFIGURATION'' (JArr [replace_a, add_b]) ''one'')
   \<and> applyPatch sample_runtime (toJSON doc_a1) (Some (JArr [replace_a, add_b])) = (doc_a2b, None)
   \<and> heap (snd (handle sample_runtime (patch_frame [replace_a, add_b]) sample_client))
        (appConfig (snd (handle sample_runtime (patch_frame [replace_a, add_b]) sample_client))) =
       doc_a1
   \<and> doc_a1 \<noteq> doc_a2b"
  by (simp add: sample_client_fields sample_patch_frame sample_toJSON sample_applyPatch
      handle_appConfig handle_heap)

text \<open>
  C3, as the code has it. Two \<^verbatim>\<open>PATCH\<close> messages, each dispatched with a listener that
  installs the emitted document: the second patch set is applied to a copy of the result
  of the first, and the stored configuration ends as the result of the second. The document
  emitted first still holds the result of the first.
\<close>

theorem sequential_PATCH_installed:
  assumes "deserialise rt data1 = Some msg1"
    and "property msg1 ''msg'' = Inr (Some (JStr ''CONFIGURATION''))"
    and "property msg1 ''verb'' = Inr (Some (JStr ''PATCH''))"
    and "property msg1 ''data'' = Inr patch1"
    and "deserialise rt data2 = Some msg2"
    and "property msg2 ''msg'' = Inr (Some (JStr ''CONFIGURATION''))"
    and "property msg2 ''verb'' = Inr (Some (JStr ''PATCH''))"
    and "property msg2 ''data'' = Inr patch2"
    and "applyPatch rt (toJSON (heap s (appConfig s))) patch1 = (doc1, None)"
    and "applyPatch rt (toJSON doc1) patch2 = (doc2, None)"
  shows "heap (dispatch rt install data2 (dispatch rt install data1 s))
           (appConfig (dispatch rt install data2 (dispatch rt install data1 s))) = doc2
       \<and> emitted (dispatch rt install data2 (dispatch rt install data1 s)) =
           emitted s @ [(RECONFIGURE, nextRef s), (RECONFIGURE, Suc (nextRef s))]
       \<and> heap (dispatch rt install data2 (dispatch rt install data1 s)) (nextRef s) = doc1"
proof -
  have first: "dispatch rt install data1 s =
      s\<lparr>appConfig := nextRef s,
        heap := (heap s)(nextRef s := doc1), nextRef := Suc (nextRef s),
        emitted := emitted s @ [(RECONFIGURE, nextRef s)],
        logged := logged s @ [(logger s, ''Handling received message''),
                              (logger s, ''Emitting new configuration''),
                              (logger s, ''restarted'')]\<rparr>"
    by (rule dispatch_install_PATCH[OF assms(1-4) assms(9)])
  have base: "applyPatch rt (toJSON (heap (dispatch rt install data1 s)
      (appConfig (dispatch rt install data1 s)))) patch2 = (doc2, None)"
    using assms(10) by (simp add: first)
  show ?thesis
    unfolding dispatch_install_PATCH[OF assms(5-8) base]
    by (simp add: first)
qed

theorem sequential_PATCH_installed_witness:
  "deserialise sample_runtime (patch_frame [replace_a]) =
       Some (message ''PATCH'' ''CONFIGURATION'' (JArr [replace_a]) ''one'')
   \<and> deserialise sample_runtime (patch_frame [add_b]) =
       Some (message ''PATCH'' ''CONFIGURATION'' (JArr [add_b]) ''one'')
   \<and> applyPatch sample_runtime (toJSON (heap sample_client (appConfig sample_client)))
       (Some (JArr [replace_a])) = (doc_a2, None)
   \<and> applyPatch sample_runtime (toJSON doc_a2) (Some (JArr [add_b])) = (doc_a2b, None)
   \<and> heap (dispatch sample_runtime install (patch_frame [add_b])
             (dispatch sample_runtime install (patch_frame [replace_a]) sample_client))
        (appConfig (dispatch sample_runtime install (patch_frame [add_b])
             (dispatch sample_runtime install (patch_frame [replace_a]) sample_client))) = doc_a2b"
proof -
  have a1: "applyPatch sample_runtime (toJSON (heap sample_client (appConfig sample_client)))
       (Some (JArr [replace_a])) = (doc_a2, None)"
    by (simp add: sample_client_fields sample_toJSON sample_applyPatch)
  have a2: "applyPatch sample_runtime (toJSON doc_a2) (Some (JArr [add_b])) = (doc_a2b, None)"
    by (simp add: sample_toJSON sample_applyPatch)
  from sequential_PATCH_installed[OF sample_patch_frame(2) sample_message sample_patch_frame(3)
      sample_message a1 a2]
  show ?thesis
    using a1 a2 by (simp add: sample_patch_frame)
qed

text \<open>
  C3 as stated fails: with the two patch sets dispatched one after the other and nothing
  else done, the second is applied to a copy of \<^verbatim>\<open>{"a":1}\<close>, the second event carries
  \<^verbatim>\<open>{"a":1,"b":true}\<close>, and the stored configuration is still \<^verbatim>\<open>{"a":1}\<close>.
\<close>

theorem sequential_PATCH_counterexample:
  "heap sample_client (appConfig sample_client) = doc_a1
   \<and> applyPatch sample_runtime (toJSON doc_a1) (Some (JArr [replace_a])) = (doc_a2, None)
   \<and> applyPatch sample_runtime (toJSON doc_a2) (Some (JArr [add_b])) = (doc_a2b, None)
   \<and> heap (snd (handle sample_runtime (patch_frame [add_b])
               (snd (handle sample_runtime (patch_frame [replace_a]) sample_client))))
        (appConfig (snd (handle sample_runtime (patch_frame [add_b])
               (snd (handle sample_runtime (patch_frame [replace_a]) sample_client))))) = doc_a1
   \<and> emitted (snd (handle sample_runtime (patch_frame [add_b])
               (snd (handle sample_runtime (patch_frame [replace_a]) sample_client)))) =
        [(RECONFIGURE, 1), (RECONFIGURE, 2)]
   \<and> heap (snd (handle sample_runtime (patch_frame [add_b])
               (snd (handle sample_runtime (patch_frame [replace_a]) sample_client)))) 2 =
        JObj [(''a'', JNum 1), (''b'', JBool True)]
   \<and> doc_a1 \<noteq> doc_a2b"
proof -
  have a1: "applyPatch sample_runtime (toJSON (heap sample_client (appConfig sample_client)))
       (Some (JArr [replace_a])) = (doc_a2, None)"
    by (simp add: sample_client_fields sample_toJSON sample_applyPatch)
  note first = handle_PATCH_success[OF sample_patch_frame(2) sample_message a1]
  have a2: "applyPatch sample_runtime
      (toJSON (heap (snd (handle sample_runtime (patch_frame [replace_a]) sample_client))
                 (appConfig (snd (handle sample_runtime (patch_frame [replace_a]) sample_client)))))
      (Some (JArr [add_b])) = (JObj [(''a'', JNum 1), (''b'', JBool True)], None)"
    by (simp add: first sample_client_fields sample_toJSON sample_applyPatch)
  note second = handle_PATCH_success[OF sample_patch_frame(3) sample_message a2]
  show ?thesis
    unfolding second
    by (simp add: first sample_client_fields sample_toJSON sample_applyPatch)
qed

section \<open>Patch application and the copy\<close>

text \<open>
  C6. The patch application of \<^verbatim>\<open>_handle\<close>, lines 337 to 341: a copy of the stored
  configuration is made and \<^verbatim>\<open>jsonPatch.applyPatch\<close> works on the copy. Every document that
  existed before \<^verbatim>\<open>_handle\<close> ran, the stored configuration among them, holds what it held,
  whether the patch set applies or the application throws. A document that is emitted is
  a new object, none of those; changing it in place afterwards leaves the documents that
  existed as they were, and changing one of them in place leaves it as it is.
\<close>

theorem applyPatch_changes_the_copy_only:
  assumes "r < nextRef s"
  shows "heap (snd (handle rt data s)) r = heap s r
       \<and> (emitted (snd (handle rt data s)) = emitted s
          \<or> emitted (snd (handle rt data s)) = emitted s @ [(RECONFIGURE, nextRef s)])
       \<and> heap (snd (jsonPatch_applyPatch rt (nextRef s) patch (snd (handle rt data s)))) r = heap s r
       \<and> heap (snd (jsonPatch_applyPatch rt r patch (snd (handle rt data s)))) (nextRef s) =
           heap (snd (handle rt data s)) (nextRef s)"
  using assms handle_emitted[of rt data s]
  by (simp add: handle_heap jsonPatch_applyPatch_def split: prod.splits)

theorem applyPatch_changes_the_copy_only_witness:
  "(0::nat) < nextRef sample_client
   \<and> heap (snd (handle sample_runtime (patch_frame [replace_a, add_b]) sample_client)) 0 = doc_a1
   \<and> heap (snd (handle sample_runtime (patch_frame [add_b, test_a_2]) sample_client)) 0 = doc_a1
   \<and> heap (snd (jsonPatch_applyPatch sample_runtime 1 (Some (JArr [replace_a]))
                 (snd (handle sample_runtime (patch_frame [replace_a, add_b]) sample_client)))) 0 =
       doc_a1"
proof -
  have h: "(0::nat) < nextRef sample_client"
    by (simp add: sample_client_fields)
  from applyPatch_changes_the_copy_only[OF h, of sample_runtime "patch_frame [replace_a, add_b]"
      "Some (JArr [replace_a])"]
    applyPatch_changes_the_copy_only[OF h, of sample_runtime "patch_frame [add_b, test_a_2]"
      "Some (JArr [replace_a])"]
  show ?thesis
    using h by (simp add: sample_client_fields)
qed

end
